theory Spec2Isabelle
  imports Main "HOL-Library.AList"
begin

section \<open>JavaScript values, errors and completions\<close>

text \<open>
  Both workflows handle untyped claim values. A value is one of the JavaScript value kinds
  the handlers can meet. Numbers are IEEE doubles in the runtime; the handlers only copy
  them, so the number type is the parameter \<open>'n\<close>. An object is the list of its own
  enumerable string-keyed properties, as \<^verbatim>\<open>Object.entries\<close> lists them: pairs of
  name and value with distinct names. Property names are ordinary data keys, and nothing
  below depends on the order of the list.
\<close>

datatype 'n js =
    JUndefined
  | JNull
  | JBool bool
  | JNum 'n
  | JStr string
  | JArr "'n js list"
  | JObj "(string \<times> 'n js) list"

datatype js_error = Error string | TypeError string | SyntaxError string

text \<open>How an \<^verbatim>\<open>async\<close> handler ends: it returns, or it throws (its promise rejects).\<close>

datatype completion = Returned | Threw js_error

text \<open>
  \<^verbatim>\<open>obj[k] = v\<close> on an object made by the literal \<^verbatim>\<open>{}\<close>: replace the property in
  place, or append it. The name \<^verbatim>\<open>__proto__\<close> is the exception: the assignment runs the
  setter that \<^verbatim>\<open>Object.prototype\<close> has under that name, which changes the prototype
  (for an object or \<^verbatim>\<open>null\<close>) or does nothing, and in no case makes an own property.
\<close>

definition assign :: "string \<Rightarrow> 'v \<Rightarrow> (string \<times> 'v) list \<Rightarrow> (string \<times> 'v) list" where
  "assign k v obj = (if k = ''__proto__'' then obj else AList.update k v obj)"

text \<open>\<^verbatim>\<open>s.startsWith(p)\<close>\<close>

definition startsWith :: "string \<Rightarrow> string \<Rightarrow> bool" where
  "startsWith s p = (take (length p) s = p)"

text \<open>\<^verbatim>\<open>String(i)\<close> for an array index: its decimal digits.\<close>

function String_nat :: "nat \<Rightarrow> string" where
  "String_nat n =
     (if n < 10 then [char_of (48 + n)]
      else String_nat (n div 10) @ [char_of (48 + n mod 10)])"
  by pat_completeness auto
termination
  by (relation "measure id") auto

declare String_nat.simps [simp del]

text \<open>The entries of an array-like value: index \<open>i\<close> under the name \<open>String(i)\<close>.\<close>

definition index_entries :: "'a list \<Rightarrow> (string \<times> 'a) list" where
  "index_entries xs = zip (map String_nat [0..<length xs]) xs"

text \<open>
  \<^verbatim>\<open>Object.entries(v)\<close>: throws a TypeError on \<^verbatim>\<open>null\<close> and
  \<^verbatim>\<open>undefined\<close>; a boolean or a number has no own enumerable property; a string
  has one per character and an array one per element, named by the index.
\<close>

fun Object_entries :: "'n js \<Rightarrow> js_error + (string \<times> 'n js) list" where
  "Object_entries JUndefined = Inl (TypeError ''Cannot convert undefined or null to object'')"
| "Object_entries JNull = Inl (TypeError ''Cannot convert undefined or null to object'')"
| "Object_entries (JBool b) = Inr []"
| "Object_entries (JNum n) = Inr []"
| "Object_entries (JStr s) = Inr (index_entries (map (\<lambda>c. JStr [c]) s))"
| "Object_entries (JArr vs) = Inr (index_entries vs)"
| "Object_entries (JObj ps) = Inr ps"

text \<open>
  Whether \<^verbatim>\<open>ToString(v)\<close>, which a template literal applies to the value it embeds,
  throws a TypeError. A primitive is converted. An object is converted by its
  \<^verbatim>\<open>toString\<close> and then its \<^verbatim>\<open>valueOf\<close>: it inherits a callable
  \<^verbatim>\<open>toString\<close> unless an own property of that name hides it, and an own property
  holds data here, never a function; the inherited \<^verbatim>\<open>valueOf\<close> returns the object
  itself, so with \<^verbatim>\<open>toString\<close> hidden the conversion fails. An array joins the
  conversions of its elements, \<^verbatim>\<open>null\<close> and \<^verbatim>\<open>undefined\<close> counting as empty.
\<close>

fun ToString_throws :: "'n js \<Rightarrow> bool" where
  "ToString_throws (JObj ps) = (''toString'' \<in> fst ` set ps)"
| "ToString_throws (JArr vs) = list_ex ToString_throws vs"
| "ToString_throws JUndefined = False"
| "ToString_throws JNull = False"
| "ToString_throws (JBool b) = False"
| "ToString_throws (JNum n) = False"
| "ToString_throws (JStr s) = False"

text \<open>Truthiness of a value that is a string, \<^verbatim>\<open>null\<close> or absent: only a non-empty string is truthy.\<close>

fun truthy :: "string option \<Rightarrow> bool" where
  "truthy None = False"
| "truthy (Some s) = (s \<noteq> [])"

section \<open>The host: management API and built-ins\<close>

text \<open>
  A property as the management API lists it. \<open>prop_value\<close> is \<open>None\<close> when the
  value is \<^verbatim>\<open>null\<close> or missing.
\<close>

record property =
  prop_key :: string
  prop_value :: "string option"

text \<open>The requests a handler sends, with endpoint and parameters as the source writes them.\<close>

datatype 'n api_call =
    CreateKindeAPI
  | Get string "(string \<times> 'n js) list"
  | Post string "(string \<times> 'n js) list"
  | Patch string "(string \<times> 'n js) list"

text \<open>
  What the host answers during one invocation. Each handler sends each kind of request at
  most once, so one answer per kind describes the host.
  \<^item> \<open>createKindeAPI\<close>: \<open>Some e\<close> when \<^verbatim>\<open>await createKindeAPI(event)\<close> throws \<open>e\<close>.
  \<^item> \<open>api_get\<close>: \<open>Inl e\<close> when the body of the \<^verbatim>\<open>try\<close> around
    \<^verbatim>\<open>kindeAPI.get\<close> throws \<open>e\<close> (the request fails, or the response has not the
    shape the body reads); \<open>Inr ps\<close> is the \<^verbatim>\<open>properties\<close> array of the response,
    \<open>None\<close> when there is none.
  \<^item> \<open>api_post\<close>, \<open>api_patch\<close>: \<open>Some e\<close> when the awaited call throws \<open>e\<close>; the
    source ignores what a call that resolves returns.
  \<^item> \<open>toISOString_now\<close>: \<^verbatim>\<open>new Date().toISOString()\<close>.
  \<^item> \<open>JSON_stringify indent v\<close>: \<^verbatim>\<open>JSON.stringify(v, null, indent)\<close>;
    \<open>JSON_parse s\<close>: \<^verbatim>\<open>JSON.parse(s)\<close>, \<open>Inl\<close> when it throws.
\<close>

record 'n host =
  createKindeAPI :: "js_error option"
  api_get :: "js_error + property list option"
  api_post :: "js_error option"
  api_patch :: "js_error option"
  toISOString_now :: string
  JSON_stringify :: "nat \<Rightarrow> 'n js \<Rightarrow> string"
  JSON_parse :: "string \<Rightarrow> js_error + 'n js"

text \<open>What an invocation did: how it ended and the requests it sent, in order.\<close>

record 'n run =
  outcome :: completion
  calls :: "'n api_call list"

section \<open>Capture workflow (post-authentication)\<close>

text \<open>
  \<open>auth_provider\<close> is \<^verbatim>\<open>event.context?.auth?.provider\<close>, \<open>claims\<close> is
  \<^verbatim>\<open>provider.data?.idToken?.claims\<close> (the own entries of the claims object, \<open>None\<close> when
  absent), \<open>user_id\<close> is \<^verbatim>\<open>event.context?.user?.id\<close>.
\<close>

record 'n idp =
  provider :: "'n js"
  protocol :: "'n js"
  claims :: "(string \<times> 'n js) list option"

record 'n post_authentication_event =
  auth_provider :: "'n idp option"
  user_id :: "string option"

definition PROPERTY_CATEGORY_ID :: string where
  "PROPERTY_CATEGORY_ID = ''cat_019a726f9081c669edb803d1970ea19b''"

definition IDP_CLAIMS_PROPERTY_KEY :: string where
  "IDP_CLAIMS_PROPERTY_KEY = ''idp_claims''"

definition ignoreClaims :: "string set" where
  "ignoreClaims =
     {''iss'', ''aud'', ''exp'', ''iat'', ''nbf'', ''jti'', ''azp'', ''nonce'', ''auth_time'',
      ''at_hash'', ''c_hash'',
      ''aio'', ''ver'', ''rh'', ''uti'', ''ipaddr'',
      ''nonce'',
      ''sid'', ''s_hash''}"

text \<open>The condition of the loop body, for one entry of the claims.\<close>

definition keep :: "string \<times> 'n js \<Rightarrow> bool" where
  "keep c = (fst c \<notin> ignoreClaims \<and> snd c \<noteq> JNull \<and> snd c \<noteq> JUndefined)"

text \<open>The loop over \<^verbatim>\<open>Object.entries(idTokenClaims)\<close> that fills \<^verbatim>\<open>claimsToStore\<close>.\<close>

fun filter_loop :: "(string \<times> 'n js) list \<Rightarrow> (string \<times> 'n js) list \<Rightarrow> (string \<times> 'n js) list" where
  "filter_loop [] claimsToStore = claimsToStore"
| "filter_loop ((claimName, claimValue) # rest) claimsToStore =
     filter_loop rest
       (if keep (claimName, claimValue)
        then assign claimName claimValue claimsToStore
        else claimsToStore)"

text \<open>\<^verbatim>\<open>claimsToStore\<close> after the loop, started from the empty object.\<close>

definition filtered_claims :: "(string \<times> 'n js) list \<Rightarrow> (string \<times> 'n js) list" where
  "filtered_claims idTokenClaims = filter_loop idTokenClaims []"

text \<open>\<^verbatim>\<open>claimsToStore\<close> after the two metadata assignments: the snapshot that is serialised.\<close>

definition claimsToStore :: "'n js \<Rightarrow> string \<Rightarrow> (string \<times> 'n js) list \<Rightarrow> (string \<times> 'n js) list" where
  "claimsToStore providerName now idTokenClaims =
     assign ''_last_updated'' (JStr now)
       (assign ''_provider'' providerName (filtered_claims idTokenClaims))"

definition list_properties_call :: "'n api_call" where
  "list_properties_call = Get ''properties'' [(''context'', JStr ''usr'')]"

definition create_property_call :: "'n api_call" where
  "create_property_call =
     Post ''properties''
       [(''key'', JStr IDP_CLAIMS_PROPERTY_KEY),
        (''name'', JStr ''IdP Claims''),
        (''description'', JStr ''All claims from the identity provider stored as JSON''),
        (''type'', JStr ''multi_line_text''),
        (''context'', JStr ''usr''),
        (''is_private'', JStr ''false''),
        (''category_id'', JStr PROPERTY_CATEGORY_ID)]"

definition patch_call :: "'n host \<Rightarrow> string \<Rightarrow> (string \<times> 'n js) list \<Rightarrow> 'n api_call" where
  "patch_call h userId snapshot =
     (let claimsJson = JSON_stringify h 2 (JObj snapshot)
      in Patch (''users/'' @ userId @ ''/properties'')
           [(''properties'',
             JStr (JSON_stringify h 0 (JObj [(IDP_CLAIMS_PROPERTY_KEY, JStr claimsJson)])))])"

text \<open>
  \<^verbatim>\<open>(propertiesResponse.data.properties || []).some(prop => prop.key === IDP_CLAIMS_PROPERTY_KEY)\<close>
\<close>

definition propertyExists :: "property list option \<Rightarrow> bool" where
  "propertyExists properties =
     list_ex (\<lambda>prop. prop_key prop = IDP_CLAIMS_PROPERTY_KEY)
       (case properties of None \<Rightarrow> [] | Some ps \<Rightarrow> ps)"

text \<open>
  The last part of the handler (filtering, metadata, serialisation and the
  \<^verbatim>\<open>patch\<close> request), after the requests \<open>sent\<close> so far. The \<^verbatim>\<open>try\<close> holds
  the \<^verbatim>\<open>patch\<close> and, after it, a \<^verbatim>\<open>console.log\<close> whose template literal embeds
  \<^verbatim>\<open>provider.provider\<close>; the \<^verbatim>\<open>catch\<close> rethrows what either throws.
\<close>

definition store_snapshot ::
  "'n host \<Rightarrow> 'n idp \<Rightarrow> string \<Rightarrow> (string \<times> 'n js) list \<Rightarrow> 'n api_call list \<Rightarrow> 'n run" where
  "store_snapshot h p userId idTokenClaims sent =
     (let snapshot = claimsToStore (provider p) (toISOString_now h) idTokenClaims;
          sent' = sent @ [patch_call h userId snapshot]
      in case api_patch h of
           Some e \<Rightarrow> \<lparr>outcome = Threw e, calls = sent'\<rparr>
         | None \<Rightarrow>
             if ToString_throws (provider p)
             then \<lparr>outcome = Threw (TypeError ''Cannot convert object to primitive value''),
                   calls = sent'\<rparr>
             else \<lparr>outcome = Returned, calls = sent'\<rparr>)"

definition captureIdpClaimsWorkflow :: "'n host \<Rightarrow> 'n post_authentication_event \<Rightarrow> 'n run" where
  "captureIdpClaimsWorkflow h event =
     (case auth_provider event of
        None \<Rightarrow> \<lparr>outcome = Returned, calls = []\<rparr>
      | Some p \<Rightarrow>
          if protocol p \<noteq> JStr ''oauth2'' then \<lparr>outcome = Returned, calls = []\<rparr>
          else
            (case claims p of
               None \<Rightarrow> \<lparr>outcome = Returned, calls = []\<rparr>
             | Some idTokenClaims \<Rightarrow>
                 (case user_id event of
                    None \<Rightarrow> \<lparr>outcome = Threw (Error ''User ID is required''), calls = []\<rparr>
                  | Some userId \<Rightarrow>
                      if userId = []
                      then \<lparr>outcome = Threw (Error ''User ID is required''), calls = []\<rparr>
                      else
                        (case createKindeAPI h of
                           Some e \<Rightarrow> \<lparr>outcome = Threw e, calls = [CreateKindeAPI]\<rparr>
                         | None \<Rightarrow>
                             (case api_get h of
                                Inl e \<Rightarrow>
                                  \<lparr>outcome = Threw e,
                                   calls = [CreateKindeAPI, list_properties_call]\<rparr>
                              | Inr properties \<Rightarrow>
                                  if propertyExists properties
                                  then store_snapshot h p userId idTokenClaims
                                         [CreateKindeAPI, list_properties_call]
                                  else
                                    (case api_post h of
                                       Some e \<Rightarrow>
                                         \<lparr>outcome = Threw e,
                                          calls = [CreateKindeAPI, list_properties_call,
                                                   create_property_call]\<rparr>
                                     | None \<Rightarrow>
                                         store_snapshot h p userId idTokenClaims
                                           [CreateKindeAPI, list_properties_call,
                                            create_property_call]))))))"

section \<open>Projection workflow (token generation)\<close>

text \<open>
  \<open>event_user_id\<close> is \<^verbatim>\<open>event.user?.id\<close> and \<open>context_user_id\<close> is
  \<^verbatim>\<open>event.context?.user?.id\<close>. The two claim bags are the handles returned by
  \<^verbatim>\<open>accessTokenCustomClaims()\<close> and \<^verbatim>\<open>idTokenCustomClaims()\<close>: maps from
  claim name to value, with whatever the host has put there before.
\<close>

record tokens_generation_event =
  event_user_id :: "string option"
  context_user_id :: "string option"

record 'n token_claims =
  accessToken :: "string \<rightharpoonup> 'n js"
  idToken :: "string \<rightharpoonup> 'n js"

record 'n token_run =
  token_outcome :: completion
  token_calls :: "'n api_call list"
  tokens :: "'n token_claims"

text \<open>
  The loop \<^verbatim>\<open>for (const prop of properties) userProperties[prop.key] = prop.value\<close>.
\<close>

fun collect_properties ::
  "property list \<Rightarrow> (string \<times> string option) list \<Rightarrow> (string \<times> string option) list" where
  "collect_properties [] userProperties = userProperties"
| "collect_properties (prop # rest) userProperties =
     collect_properties rest (assign (prop_key prop) (prop_value prop) userProperties)"

text \<open>
  \<^verbatim>\<open>userProperties.idp_claims\<close> once the response is read: \<open>None\<close> when it is
  \<^verbatim>\<open>undefined\<close> or \<^verbatim>\<open>null\<close>. Without a \<^verbatim>\<open>properties\<close> array
  \<^verbatim>\<open>userProperties\<close> stays empty.
\<close>

definition stored_idp_claims :: "property list option \<Rightarrow> string option" where
  "stored_idp_claims properties =
     (let userProperties = (case properties of None \<Rightarrow> [] | Some ps \<Rightarrow> collect_properties ps [])
      in case map_of userProperties ''idp_claims'' of
           None \<Rightarrow> None
         | Some v \<Rightarrow> v)"

text \<open>The loop over \<^verbatim>\<open>Object.entries(idpClaims)\<close> that writes both claim bags.\<close>

fun add_claims :: "(string \<times> 'n js) list \<Rightarrow> 'n token_claims \<Rightarrow> 'n token_claims" where
  "add_claims [] bags = bags"
| "add_claims ((claimName, claimValue) # rest) bags =
     (if startsWith claimName ''_'' then add_claims rest bags
      else
        (let tokenClaimName = ''idp_'' @ claimName
         in add_claims rest
              (bags\<lparr>accessToken := (accessToken bags)(tokenClaimName \<mapsto> claimValue),
                     idToken := (idToken bags)(tokenClaimName \<mapsto> claimValue)\<rparr>)))"

text \<open>\<^verbatim>\<open>claimsAdded\<close> after the loop: one for every entry the loop does not skip.\<close>

definition claimsAdded :: "(string \<times> 'n js) list \<Rightarrow> nat" where
  "claimsAdded entries =
     length (filter (\<lambda>(claimName, claimValue). \<not> startsWith claimName ''_'') entries)"

text \<open>
  \<^verbatim>\<open>idpClaims._provider\<close> for a value that \<^verbatim>\<open>Object.entries\<close> has accepted: the own
  property of an object, \<^verbatim>\<open>undefined\<close> when there is none and for an array, a string,
  a number or a boolean.
\<close>

fun stored_provider :: "'n js \<Rightarrow> 'n js" where
  "stored_provider (JObj ps) = (case map_of ps ''_provider'' of None \<Rightarrow> JUndefined | Some v \<Rightarrow> v)"
| "stored_provider v = JUndefined"

text \<open>
  The end of the handler: when \<^verbatim>\<open>claimsAdded > 0\<close> a \<^verbatim>\<open>console.log\<close> embeds
  \<^verbatim>\<open>idpClaims._provider || "unknown"\<close> in a template literal. A falsy value and
  \<^verbatim>\<open>"unknown"\<close> are primitives, which \<^verbatim>\<open>ToString\<close> converts; no handler is
  around this statement.
\<close>

definition final_log :: "'n js \<Rightarrow> (string \<times> 'n js) list \<Rightarrow> completion" where
  "final_log idpClaims entries =
     (if claimsAdded entries > 0 \<and> ToString_throws (stored_provider idpClaims)
      then Threw (TypeError ''Cannot convert object to primitive value'')
      else Returned)"

definition user_properties_call :: "string \<Rightarrow> 'n api_call" where
  "user_properties_call userId = Get (''users/'' @ userId @ ''/properties'') []"

text \<open>\<^verbatim>\<open>event.user?.id || event.context?.user?.id\<close>\<close>

definition userId_of :: "tokens_generation_event \<Rightarrow> string option" where
  "userId_of event =
     (if truthy (event_user_id event) then event_user_id event else context_user_id event)"

definition handleTokensGeneration ::
  "'n host \<Rightarrow> tokens_generation_event \<Rightarrow> 'n token_claims \<Rightarrow> 'n token_run" where
  "handleTokensGeneration h event bags =
     (case userId_of event of
        None \<Rightarrow> \<lparr>token_outcome = Returned, token_calls = [], tokens = bags\<rparr>
      | Some userId \<Rightarrow>
          if userId = [] then \<lparr>token_outcome = Returned, token_calls = [], tokens = bags\<rparr>
          else
            (case createKindeAPI h of
               Some e \<Rightarrow>
                 \<lparr>token_outcome = Threw e, token_calls = [CreateKindeAPI], tokens = bags\<rparr>
             | None \<Rightarrow>
                 (let sent = [CreateKindeAPI, user_properties_call userId]
                  in case api_get h of
                       Inl e \<Rightarrow> \<lparr>token_outcome = Returned, token_calls = sent, tokens = bags\<rparr>
                     | Inr properties \<Rightarrow>
                         (case stored_idp_claims properties of
                            None \<Rightarrow>
                              \<lparr>token_outcome = Returned, token_calls = sent, tokens = bags\<rparr>
                          | Some idp_claims \<Rightarrow>
                              if idp_claims = []
                              then \<lparr>token_outcome = Returned, token_calls = sent, tokens = bags\<rparr>
                              else
                                (case JSON_parse h idp_claims of
                                   Inl e \<Rightarrow>
                                     \<lparr>token_outcome = Returned, token_calls = sent,
                                      tokens = bags\<rparr>
                                 | Inr idpClaims \<Rightarrow>
                                     (case Object_entries idpClaims of
                                        Inl e \<Rightarrow>
                                          \<lparr>token_outcome = Threw e, token_calls = sent,
                                           tokens = bags\<rparr>
                                      | Inr entries \<Rightarrow>
                                          \<lparr>token_outcome = final_log idpClaims entries,
                                           token_calls = sent,
                                           tokens = add_claims entries bags\<rparr>))))))"

section \<open>A host and events for the examples\<close>

text \<open>
  The examples below run the handlers on a concrete host. They never read a serialised
  text, so this host serialises every value to the empty text; its \<^verbatim>\<open>JSON.parse\<close>
  is given on the texts the examples store: two objects, one array and \<^verbatim>\<open>null\<close>; any
  other text is taken as not being JSON.
\<close>

definition example_stringify :: "nat \<Rightarrow> int js \<Rightarrow> string" where
  "example_stringify indent v = ''''"

definition example_parse :: "string \<Rightarrow> js_error + int js" where
  \<open>example_parse s =
     (if s = ''{"a":1,"b":"x","_provider":"google","_last_updated":"T"}''
      then Inr (JObj [(''a'', JNum 1), (''b'', JStr ''x''), (''_provider'', JStr ''google''),
                      (''_last_updated'', JStr ''T'')])
      else if s = ''[1,2]'' then Inr (JArr [JNum 1, JNum 2])
      else if s = ''null'' then Inr JNull
      else if s = ''{"a":1,"_provider":{"toString":1}}''
      then Inr (JObj [(''a'', JNum 1), (''_provider'', JObj [(''toString'', JNum 1)])])
      else Inl (SyntaxError ''Unexpected token''))\<close>

definition example_host :: "int host" where
  "example_host =
     \<lparr>createKindeAPI = None, api_get = Inr (Some []), api_post = None, api_patch = None,
      toISOString_now = ''2024-01-01T00:00:00.000Z'',
      JSON_stringify = example_stringify, JSON_parse = example_parse\<rparr>"

definition example_idp :: "int idp" where
  "example_idp =
     \<lparr>provider = JStr ''google'', protocol = JStr ''oauth2'',
      claims = Some [(''sub'', JStr ''u1''), (''email'', JStr ''a@b.com''),
                     (''nonce'', JStr ''n''), (''iss'', JStr ''https://accounts.google.com'')]\<rparr>"

definition example_event :: "int post_authentication_event" where
  "example_event = \<lparr>auth_provider = Some example_idp, user_id = Some ''kp_1''\<rparr>"

definition example_token_event :: tokens_generation_event where
  "example_token_event = \<lparr>event_user_id = Some ''kp_1'', context_user_id = None\<rparr>"

definition example_bags :: "int token_claims" where
  "example_bags = \<lparr>accessToken = Map.empty, idToken = Map.empty\<rparr>"

definition stored_property :: "string \<Rightarrow> property" where
  "stored_property text = \<lparr>prop_key = ''idp_claims'', prop_value = Some text\<rparr>"

section \<open>Helper lemmas\<close>

lemma assign_proto: "assign ''__proto__'' v obj = obj"
  by (simp add: assign_def)

lemma map_of_assign: "k \<noteq> ''__proto__'' \<Longrightarrow> map_of (assign k v obj) = (map_of obj)(k \<mapsto> v)"
  by (simp add: assign_def update_conv')

lemma keys_assign:
  "fst ` set (assign k v obj) =
     (if k = ''__proto__'' then fst ` set obj else insert k (fst ` set obj))"
  by (simp add: assign_def dom_update)

lemma distinct_assign: "distinct (map fst obj) \<Longrightarrow> distinct (map fst (assign k v obj))"
  by (simp add: assign_def distinct_update)

lemma set_assign: "set (assign k v obj) \<subseteq> insert (k, v) (set obj)"
  unfolding assign_def by (induction obj) auto

lemma add_claims_other:
  "claim \<notin> (\<lambda>name. ''idp_'' @ name) ` {name \<in> fst ` set es. \<not> startsWith name ''_''} \<Longrightarrow>
   accessToken (add_claims es b) claim = accessToken b claim
   \<and> idToken (add_claims es b) claim = idToken b claim"
proof (induction es arbitrary: b)
  case Nil
  then show ?case by simp
next
  case (Cons e es)
  obtain k v where e: "e = (k, v)" by (cases e)
  from Cons.prems
  have rest: "claim \<notin> (\<lambda>name. ''idp_'' @ name) ` {name \<in> fst ` set es. \<not> startsWith name ''_''}"
    by auto
  show ?case
  proof (cases "startsWith k ''_''")
    case True
    then show ?thesis using Cons.IH[OF rest, of b] by (simp add: e)
  next
    case False
    with Cons.prems have ne: "claim \<noteq> ''idp_'' @ k"
      by (auto simp: e)
    define b' where "b' = b\<lparr>accessToken := (accessToken b)(''idp_'' @ k \<mapsto> v),
                             idToken := (idToken b)(''idp_'' @ k \<mapsto> v)\<rparr>"
    have step: "add_claims (e # es) b = add_claims es b'"
      using False by (simp add: e Let_def b'_def)
    have "accessToken b' claim = accessToken b claim" "idToken b' claim = idToken b claim"
      using ne by (simp_all add: b'_def)
    with Cons.IH[OF rest, of b'] show ?thesis
      unfolding step by simp
  qed
qed

lemma add_claims_lookup:
  "distinct (map fst es) \<Longrightarrow> (name, v) \<in> set es \<Longrightarrow> \<not> startsWith name ''_'' \<Longrightarrow>
   accessToken (add_claims es b) (''idp_'' @ name) = Some v
   \<and> idToken (add_claims es b) (''idp_'' @ name) = Some v"
proof (induction es arbitrary: b)
  case Nil
  then show ?case by simp
next
  case (Cons e es)
  obtain k w where e: "e = (k, w)" by (cases e)
  from Cons.prems(1) have d: "distinct (map fst es)" and fresh: "k \<notin> fst ` set es"
    by (auto simp: e)
  show ?case
  proof (cases "(name, v) \<in> set es")
    case True
    show ?thesis
    proof (cases "startsWith k ''_''")
      case skip: True
      then show ?thesis using Cons.IH[OF d True Cons.prems(3), of b] by (simp add: e)
    next
      case False
      then show ?thesis
        using Cons.IH[OF d True Cons.prems(3),
            of "b\<lparr>accessToken := (accessToken b)(''idp_'' @ k \<mapsto> w),
                   idToken := (idToken b)(''idp_'' @ k \<mapsto> w)\<rparr>"]
        by (simp add: e Let_def)
    qed
  next
    case False
    with Cons.prems(2) have here: "k = name" "w = v"
      by (auto simp: e)
    define b' where "b' = b\<lparr>accessToken := (accessToken b)(''idp_'' @ name \<mapsto> v),
                             idToken := (idToken b)(''idp_'' @ name \<mapsto> v)\<rparr>"
    have step: "add_claims (e # es) b = add_claims es b'"
      using Cons.prems(3) by (simp add: e here Let_def b'_def)
    have "''idp_'' @ name \<notin> (\<lambda>name. ''idp_'' @ name) ` {name \<in> fst ` set es. \<not> startsWith name ''_''}"
      using fresh here by auto
    from add_claims_other[OF this, of b'] show ?thesis
      unfolding step by (simp add: b'_def)
  qed
qed

lemma filter_loop_subset:
  "set (filter_loop cs acc) \<subseteq> set acc \<union> {c \<in> set cs. keep c}"
proof (induction cs arbitrary: acc)
  case Nil
  then show ?case by simp
next
  case (Cons c cs)
  obtain k v where c: "c = (k, v)" by (cases c)
  show ?case
  proof (cases "keep c")
    case True
    then have "filter_loop (c # cs) acc = filter_loop cs (assign k v acc)"
      by (simp add: c)
    moreover have "set (filter_loop cs (assign k v acc)) \<subseteq> set (assign k v acc) \<union> {c \<in> set cs. keep c}"
      by (rule Cons.IH)
    moreover have "set (assign k v acc) \<subseteq> insert c (set acc)"
      unfolding c by (rule set_assign)
    ultimately show ?thesis using True by auto
  next
    case False
    then have "filter_loop (c # cs) acc = filter_loop cs acc"
      by (simp add: c)
    with Cons.IH[of acc] False show ?thesis by auto
  qed
qed

lemma filter_loop_distinct:
  "distinct (map fst acc) \<Longrightarrow> distinct (map fst (filter_loop cs acc))"
  by (induction cs arbitrary: acc) (auto simp: distinct_assign)

lemma filter_loop_lookup:
  "distinct (map fst cs) \<Longrightarrow>
   map_of (filter_loop cs acc) k =
     (case map_of cs k of
        None \<Rightarrow> map_of acc k
      | Some v \<Rightarrow> if keep (k, v) \<and> k \<noteq> ''__proto__'' then Some v else map_of acc k)"
proof (induction cs arbitrary: acc)
  case Nil
  then show ?case by simp
next
  case (Cons c cs)
  obtain k' v' where c: "c = (k', v')" by (cases c)
  from Cons.prems have d: "distinct (map fst cs)" and nk: "k' \<notin> fst ` set cs"
    by (auto simp: c)
  from nk have none: "map_of cs k' = None"
    by (simp add: map_of_eq_None_iff)
  show ?case
  proof (cases "k' = ''__proto__''")
    case True
    then have "filter_loop (c # cs) acc = filter_loop cs acc"
      by (simp add: c assign_proto)
    with Cons.IH[OF d, of acc] none True show ?thesis
      by (auto simp: c split: option.splits)
  next
    case False
    show ?thesis
      using Cons.IH[OF d, of "if keep c then assign k' v' acc else acc"] none False
      by (auto simp: c map_of_assign split: option.splits)
  qed
qed

lemma keys_claimsToStore:
  "fst ` set (claimsToStore pn now cs) =
     {''_provider'', ''_last_updated''} \<union> fst ` set (filtered_claims cs)"
  by (auto simp: claimsToStore_def keys_assign)

lemma String_nat_nonempty: "String_nat n \<noteq> []"
  by (subst String_nat.simps) simp

lemma String_nat_inj: "String_nat n = String_nat m \<Longrightarrow> n = m"
proof (induction n arbitrary: m rule: String_nat.induct)
  case (1 n)
  have n: "String_nat n =
     (if n < 10 then [char_of (48 + n)]
      else String_nat (n div 10) @ [char_of (48 + n mod 10)])"
    by (rule String_nat.simps)
  have m: "String_nat m =
     (if m < 10 then [char_of (48 + m)]
      else String_nat (m div 10) @ [char_of (48 + m mod 10)])"
    by (rule String_nat.simps)
  show ?case
  proof (cases "n < 10")
    case True
    show ?thesis
    proof (cases "m < 10")
      case lt: True
      from "1.prems" True lt have "char_of (48 + n) = (char_of (48 + m) :: char)"
        by (simp add: n m)
      then have "(48 + n) mod 256 = (48 + m) mod 256"
        by (simp add: char_of_quasi_inj)
      with True lt show ?thesis by simp
    next
      case ge: False
      from "1.prems" True ge have "String_nat (m div 10) = []"
        by (simp add: n m)
      then show ?thesis by (simp add: String_nat_nonempty)
    qed
  next
    case False
    show ?thesis
    proof (cases "m < 10")
      case lt: True
      from "1.prems" False lt have "String_nat (n div 10) = []"
        by (simp add: n m)
      then show ?thesis by (simp add: String_nat_nonempty)
    next
      case ge: False
      from "1.prems" False ge
      have eq: "String_nat (n div 10) = String_nat (m div 10)"
        and ch: "char_of (48 + n mod 10) = (char_of (48 + m mod 10) :: char)"
        by (simp_all add: n m)
      from "1.IH"[OF False eq] have d: "n div 10 = m div 10" .
      from ch have "(48 + n mod 10) mod 256 = (48 + m mod 10) mod 256"
        by (simp add: char_of_quasi_inj)
      then have "n mod 10 = m mod 10" by simp
      with d show ?thesis by (metis div_mult_mod_eq)
    qed
  qed
qed

lemma digit_not_underscore: "(d::nat) < 10 \<Longrightarrow> (char_of (48 + d) :: char) \<noteq> CHR ''_''"
proof
  assume d: "d < (10::nat)" and eq: "(char_of (48 + d) :: char) = CHR ''_''"
  from eq have "of_char (char_of (48 + d) :: char) = (of_char (CHR ''_'') :: nat)"
    by simp
  then have "(48 + d) mod 256 = 95"
    by (simp add: of_char_of)
  moreover from d have "(48 + d) mod 256 = 48 + d"
    by simp
  ultimately show False using d by simp
qed

lemma String_nat_no_underscore: "\<not> startsWith (String_nat n) ''_''"
proof (induction n rule: String_nat.induct)
  case (1 n)
  have n: "String_nat n =
     (if n < 10 then [char_of (48 + n)]
      else String_nat (n div 10) @ [char_of (48 + n mod 10)])"
    by (rule String_nat.simps)
  show ?case
  proof (cases "n < 10")
    case True
    then show ?thesis
      using digit_not_underscore[of n] by (simp add: n startsWith_def)
  next
    case False
    from "1.IH"[OF False] String_nat_nonempty[of "n div 10"] False show ?thesis
      by (cases "String_nat (n div 10)") (simp_all add: n startsWith_def)
  qed
qed

lemma index_entries_distinct: "distinct (map fst (index_entries xs))"
proof -
  have "inj_on String_nat (set [0..<length xs])"
    by (rule inj_onI) (rule String_nat_inj)
  then show ?thesis
    by (simp add: index_entries_def distinct_map)
qed

lemma index_entries_mem: "i < length xs \<Longrightarrow> (String_nat i, xs ! i) \<in> set (index_entries xs)"
  unfolding index_entries_def set_zip by (rule CollectI, rule exI[of _ i]) simp

lemma add_claims_index:
  "i < length xs \<Longrightarrow>
   accessToken (add_claims (index_entries xs) b) (''idp_'' @ String_nat i) = Some (xs ! i)
   \<and> idToken (add_claims (index_entries xs) b) (''idp_'' @ String_nat i) = Some (xs ! i)"
  by (rule add_claims_lookup[OF index_entries_distinct index_entries_mem String_nat_no_underscore])

lemma stored_idp_claims_example [simp]:
  "stored_idp_claims (Some [stored_property text]) = Some text"
  by (simp add: stored_idp_claims_def stored_property_def assign_def)

lemma example_host_fields [simp]:
  "createKindeAPI (example_host\<lparr>api_get := g\<rparr>) = None"
  "api_get (example_host\<lparr>api_get := g\<rparr>) = g"
  "JSON_parse (example_host\<lparr>api_get := g\<rparr>) = example_parse"
  by (simp_all add: example_host_def)

lemma example_token_event_user [simp]: "userId_of example_token_event = Some ''kp_1''"
  by (simp add: userId_of_def example_token_event_def)

lemma projection_reaches_loop:
  assumes "userId_of event = Some userId" and "userId \<noteq> []"
    and "createKindeAPI h = None" and "api_get h = Inr properties"
    and "stored_idp_claims properties = Some text" and "text \<noteq> []"
    and "JSON_parse h text = Inr idpClaims" and "Object_entries idpClaims = Inr entries"
  shows "handleTokensGeneration h event bags =
           \<lparr>token_outcome = final_log idpClaims entries,
            token_calls = [CreateKindeAPI, user_properties_call userId],
            tokens = add_claims entries bags\<rparr>"
  using assms by (simp add: handleTokensGeneration_def Let_def)

lemma final_log_no_provider:
  "final_log (JArr vs) entries = Returned" "final_log (JStr s) entries = Returned"
  by (simp_all add: final_log_def)

section \<open>Capture workflow: the claims\<close>

text \<open>
  C8. When the provider descriptor is absent, or its protocol is not \<^verbatim>\<open>"oauth2"\<close>, or
  the raw identity-token claims are absent, the capture handler returns without raising
  and sends no request at all: it does not create the API client, does not list or create
  property definitions and does not write a property value.
\<close>

theorem capture_skips_without_side_effects:
  assumes "auth_provider event = None
           \<or> (\<exists>p. auth_provider event = Some p
                    \<and> (protocol p \<noteq> JStr ''oauth2'' \<or> claims p = None))"
  shows "captureIdpClaimsWorkflow h event = \<lparr>outcome = Returned, calls = []\<rparr>"
  using assms by (auto simp: captureIdpClaimsWorkflow_def)

theorem capture_skips_without_side_effects_witness:
  "captureIdpClaimsWorkflow example_host (example_event\<lparr>auth_provider := None\<rparr>)
     = \<lparr>outcome = Returned, calls = []\<rparr>
   \<and> captureIdpClaimsWorkflow example_host
         (example_event\<lparr>auth_provider := Some (example_idp\<lparr>protocol := JStr ''saml''\<rparr>)\<rparr>)
     = \<lparr>outcome = Returned, calls = []\<rparr>
   \<and> captureIdpClaimsWorkflow example_host
         (example_event\<lparr>auth_provider := Some (example_idp\<lparr>claims := None\<rparr>)\<rparr>)
     = \<lparr>outcome = Returned, calls = []\<rparr>"
proof (intro conjI)
  show "captureIdpClaimsWorkflow example_host (example_event\<lparr>auth_provider := None\<rparr>)
     = \<lparr>outcome = Returned, calls = []\<rparr>"
    by (rule capture_skips_without_side_effects) simp
  show "captureIdpClaimsWorkflow example_host
         (example_event\<lparr>auth_provider := Some (example_idp\<lparr>protocol := JStr ''saml''\<rparr>)\<rparr>)
     = \<lparr>outcome = Returned, calls = []\<rparr>"
    by (rule capture_skips_without_side_effects) simp
  show "captureIdpClaimsWorkflow example_host
         (example_event\<lparr>auth_provider := Some (example_idp\<lparr>claims := None\<rparr>)\<rparr>)
     = \<lparr>outcome = Returned, calls = []\<rparr>"
    by (rule capture_skips_without_side_effects) simp
qed

text \<open>
  C9. With a provider of protocol \<^verbatim>\<open>"oauth2"\<close> and raw claims present, a user
  identifier that is absent (or the empty string, which \<^verbatim>\<open>!userId\<close> treats alike)
  makes the capture handler throw \<^verbatim>\<open>Error("User ID is required")\<close>, before any
  request is sent.
\<close>

theorem capture_missing_user_raises:
  assumes "auth_provider event = Some p" and "protocol p = JStr ''oauth2''"
    and "claims p = Some idTokenClaims" and "\<not> truthy (user_id event)"
  shows "captureIdpClaimsWorkflow h event =
           \<lparr>outcome = Threw (Error ''User ID is required''), calls = []\<rparr>"
  using assms by (auto simp: captureIdpClaimsWorkflow_def split: option.splits)

theorem capture_missing_user_raises_witness:
  "captureIdpClaimsWorkflow example_host (example_event\<lparr>user_id := None\<rparr>) =
     \<lparr>outcome = Threw (Error ''User ID is required''), calls = []\<rparr>"
  by (rule capture_missing_user_raises[where p = example_idp])
     (simp_all add: example_event_def example_idp_def)

text \<open>
  What the claim filter (the loop that fills \<^verbatim>\<open>claimsToStore\<close> from the empty
  object) does for every claims object: no entry of the output has a name in the exclusion
  set or the value \<^verbatim>\<open>null\<close> or \<^verbatim>\<open>undefined\<close>; every entry of the input that has
  neither, and whose name is not \<^verbatim>\<open>__proto__\<close>, is in the output under the same name
  with the same value; the output holds nothing that is not in the input.
\<close>

lemma claim_filter_passes:
  assumes "distinct (map fst idTokenClaims)"
  shows "(\<forall>(name, v) \<in> set (filtered_claims idTokenClaims).
            name \<notin> ignoreClaims \<and> v \<noteq> JNull \<and> v \<noteq> JUndefined)
       \<and> (\<forall>(name, v) \<in> set idTokenClaims.
            name \<notin> ignoreClaims \<and> v \<noteq> JNull \<and> v \<noteq> JUndefined \<and> name \<noteq> ''__proto__'' \<longrightarrow>
            map_of (filtered_claims idTokenClaims) name = Some v)
       \<and> set (filtered_claims idTokenClaims) \<subseteq> set idTokenClaims
       \<and> distinct (map fst (filtered_claims idTokenClaims))"
proof (intro conjI)
  have sub: "set (filtered_claims idTokenClaims) \<subseteq> {c \<in> set idTokenClaims. keep c}"
    using filter_loop_subset[of idTokenClaims "[]"] by (simp add: filtered_claims_def)
  then show "\<forall>(name, v) \<in> set (filtered_claims idTokenClaims).
            name \<notin> ignoreClaims \<and> v \<noteq> JNull \<and> v \<noteq> JUndefined"
    by (auto simp: keep_def)
  from sub show "set (filtered_claims idTokenClaims) \<subseteq> set idTokenClaims"
    by auto
  show "\<forall>(name, v) \<in> set idTokenClaims.
            name \<notin> ignoreClaims \<and> v \<noteq> JNull \<and> v \<noteq> JUndefined \<and> name \<noteq> ''__proto__'' \<longrightarrow>
            map_of (filtered_claims idTokenClaims) name = Some v"
    using assms by (auto simp: filtered_claims_def filter_loop_lookup keep_def)
  show "distinct (map fst (filtered_claims idTokenClaims))"
    by (simp add: filtered_claims_def filter_loop_distinct)
qed

text \<open>
  C3 fails on the code for a raw claim named \<^verbatim>\<open>__proto__\<close>. The name is not in the
  exclusion set and the value is neither \<^verbatim>\<open>null\<close> nor \<^verbatim>\<open>undefined\<close>, so the loop
  runs \<^verbatim>\<open>claimsToStore["__proto__"] = "x"\<close>; on the object literal that is the inherited
  setter, and the claim is in neither the filter's output nor the snapshot. The claim
  \<^verbatim>\<open>sub\<close> beside it passes.
\<close>

theorem claim_filter_drops_proto:
  "filtered_claims [(''__proto__'', JStr ''x''), (''sub'', JStr ''u1'' :: int js)]
     = [(''sub'', JStr ''u1'')]
   \<and> ''__proto__'' \<notin> ignoreClaims
   \<and> claimsToStore (JStr ''google'') ''2024-01-01T00:00:00.000Z''
         [(''__proto__'', JStr ''x''), (''sub'', JStr ''u1'' :: int js)]
     = [(''sub'', JStr ''u1''), (''_provider'', JStr ''google''),
        (''_last_updated'', JStr ''2024-01-01T00:00:00.000Z'')]"
  by (simp add: claimsToStore_def filtered_claims_def keep_def assign_def ignoreClaims_def)

text \<open>
  C1 does not hold as stated. The listing shows no property \<^verbatim>\<open>idp_claims\<close> and the
  \<^verbatim>\<open>post\<close> that creates it fails because another capture has created it meanwhile.
  The \<^verbatim>\<open>catch\<close> around the \<^verbatim>\<open>post\<close> logs and rethrows every error: the handler
  throws that error and sends no \<^verbatim>\<open>patch\<close>.
\<close>

theorem create_already_exists_counterexample:
  "captureIdpClaimsWorkflow
     (example_host\<lparr>api_post := Some (Error ''Property with key idp_claims already exists'')\<rparr>)
     example_event =
   \<lparr>outcome = Threw (Error ''Property with key idp_claims already exists''),
    calls = [CreateKindeAPI, list_properties_call, create_property_call]\<rparr>"
  by (simp add: captureIdpClaimsWorkflow_def example_host_def example_event_def example_idp_def
      propertyExists_def)

text \<open>
  C1, as the code has it. Past the guards, with the API client created and the listing
  read: if the listing holds the key \<^verbatim>\<open>idp_claims\<close>, no create request is sent and
  the snapshot is written; if it does not and the create request resolves, the snapshot
  is written after it; if the create request throws, whatever the error (an
  "already exists" answer included), the handler throws the same error and the snapshot
  is not written.
\<close>

theorem ensure_property_outcomes:
  assumes "auth_provider event = Some p" and "protocol p = JStr ''oauth2''"
    and "claims p = Some idTokenClaims"
    and "user_id event = Some userId" and "userId \<noteq> []"
    and "createKindeAPI h = None" and "api_get h = Inr properties"
  shows "(propertyExists properties \<longrightarrow>
            calls (captureIdpClaimsWorkflow h event) =
              [CreateKindeAPI, list_properties_call,
               patch_call h userId
                 (claimsToStore (provider p) (toISOString_now h) idTokenClaims)])
       \<and> (\<not> propertyExists properties \<and> api_post h = None \<longrightarrow>
            calls (captureIdpClaimsWorkflow h event) =
              [CreateKindeAPI, list_properties_call, create_property_call,
               patch_call h userId
                 (claimsToStore (provider p) (toISOString_now h) idTokenClaims)])
       \<and> (\<forall>e. \<not> propertyExists properties \<and> api_post h = Some e \<longrightarrow>
            captureIdpClaimsWorkflow h event =
              \<lparr>outcome = Threw e,
               calls = [CreateKindeAPI, list_properties_call, create_property_call]\<rparr>)"
  using assms
  by (simp add: captureIdpClaimsWorkflow_def store_snapshot_def Let_def split: option.splits)

theorem ensure_property_outcomes_witness:
  "calls (captureIdpClaimsWorkflow
            (example_host\<lparr>api_get := Inr (Some [\<lparr>prop_key = ''idp_claims'', prop_value = None\<rparr>])\<rparr>)
            example_event) =
     [CreateKindeAPI, list_properties_call,
      patch_call example_host ''kp_1''
        [(''sub'', JStr ''u1''), (''email'', JStr ''a@b.com''), (''_provider'', JStr ''google''),
         (''_last_updated'', JStr ''2024-01-01T00:00:00.000Z'')]]
   \<and> calls (captureIdpClaimsWorkflow example_host example_event) =
     [CreateKindeAPI, list_properties_call, create_property_call,
      patch_call example_host ''kp_1''
        [(''sub'', JStr ''u1''), (''email'', JStr ''a@b.com''), (''_provider'', JStr ''google''),
         (''_last_updated'', JStr ''2024-01-01T00:00:00.000Z'')]]
   \<and> captureIdpClaimsWorkflow (example_host\<lparr>api_post := Some (Error ''Conflict'')\<rparr>) example_event =
     \<lparr>outcome = Threw (Error ''Conflict''),
      calls = [CreateKindeAPI, list_properties_call, create_property_call]\<rparr>"
proof -
  have ev: "auth_provider example_event = Some example_idp"
    "protocol example_idp = JStr ''oauth2''"
    "claims example_idp = Some [(''sub'', JStr ''u1''), (''email'', JStr ''a@b.com''),
                     (''nonce'', JStr ''n''), (''iss'', JStr ''https://accounts.google.com'')]"
    "user_id example_event = Some ''kp_1''" "''kp_1'' \<noteq> []"
    by (simp_all add: example_event_def example_idp_def)
  have snap: "claimsToStore (provider example_idp) ''2024-01-01T00:00:00.000Z''
                [(''sub'', JStr ''u1''), (''email'', JStr ''a@b.com''),
                 (''nonce'', JStr ''n''), (''iss'', JStr ''https://accounts.google.com'')] =
              [(''sub'', JStr ''u1''), (''email'', JStr ''a@b.com''), (''_provider'', JStr ''google''),
               (''_last_updated'', JStr ''2024-01-01T00:00:00.000Z'')]"
    by (simp add: claimsToStore_def filtered_claims_def keep_def assign_def ignoreClaims_def
        example_idp_def)
  let ?listed = "example_host\<lparr>api_get := Inr (Some [\<lparr>prop_key = ''idp_claims'', prop_value = None\<rparr>])\<rparr>"
  let ?conflict = "example_host\<lparr>api_post := Some (Error ''Conflict'')\<rparr>"
  have a: "calls (captureIdpClaimsWorkflow ?listed example_event) =
     [CreateKindeAPI, list_properties_call,
      patch_call example_host ''kp_1''
        [(''sub'', JStr ''u1''), (''email'', JStr ''a@b.com''), (''_provider'', JStr ''google''),
         (''_last_updated'', JStr ''2024-01-01T00:00:00.000Z'')]]"
    using ensure_property_outcomes[OF ev, of ?listed
        "Some [\<lparr>prop_key = ''idp_claims'', prop_value = None\<rparr>]"]
    by (simp add: example_host_def propertyExists_def IDP_CLAIMS_PROPERTY_KEY_def snap patch_call_def)
  have b: "calls (captureIdpClaimsWorkflow example_host example_event) =
     [CreateKindeAPI, list_properties_call, create_property_call,
      patch_call example_host ''kp_1''
        [(''sub'', JStr ''u1''), (''email'', JStr ''a@b.com''), (''_provider'', JStr ''google''),
         (''_last_updated'', JStr ''2024-01-01T00:00:00.000Z'')]]"
    using ensure_property_outcomes[OF ev, of example_host "Some []"]
    by (simp add: example_host_def propertyExists_def snap patch_call_def)
  have c: "captureIdpClaimsWorkflow ?conflict example_event =
     \<lparr>outcome = Threw (Error ''Conflict''),
      calls = [CreateKindeAPI, list_properties_call, create_property_call]\<rparr>"
    using ensure_property_outcomes[OF ev, of ?conflict "Some []"]
    by (simp add: example_host_def propertyExists_def)
  from a b c show ?thesis by simp
qed

text \<open>
  C5 does not hold as stated. The filter never looks at the first character of a claim
  name, so a raw claim named \<^verbatim>\<open>_claim_names\<close> (the OpenID Connect member for
  aggregated and distributed claims) is a key of the snapshot \<^verbatim>\<open>claimsToStore\<close>, beside
  the two metadata fields.
\<close>

theorem underscore_claim_stored_counterexample:
  "claimsToStore (JStr ''google'') ''2024-01-01T00:00:00.000Z''
     [(''sub'', JStr ''u1''),
      (''_claim_names'', JObj [(''groups'', JStr ''src1'' :: int js)])]
     = [(''sub'', JStr ''u1''),
        (''_claim_names'', JObj [(''groups'', JStr ''src1'')]),
        (''_provider'', JStr ''google''),
        (''_last_updated'', JStr ''2024-01-01T00:00:00.000Z'')]
   \<and> startsWith ''_claim_names'' ''_''
   \<and> ''_claim_names'' \<noteq> ''_provider'' \<and> ''_claim_names'' \<noteq> ''_last_updated''"
  by (simp add: claimsToStore_def filtered_claims_def keep_def assign_def ignoreClaims_def
      startsWith_def)

text \<open>
  C5, as the code has it. Every \<^verbatim>\<open>patch\<close> the capture handler sends carries the
  serialised \<^verbatim>\<open>claimsToStore\<close> object, and a key of that object that begins with
  \<^verbatim>\<open>_\<close> is \<^verbatim>\<open>_provider\<close>, \<^verbatim>\<open>_last_updated\<close>, or the name of a raw claim that
  itself begins with \<^verbatim>\<open>_\<close> and passed the filter. So the invariant holds whenever no
  raw claim name begins with \<^verbatim>\<open>_\<close>.
\<close>

theorem snapshot_underscore_keys:
  assumes "auth_provider event = Some p" and "claims p = Some idTokenClaims"
    and "user_id event = Some userId"
    and "Patch endpoint params \<in> set (calls (captureIdpClaimsWorkflow h event))"
  shows "Patch endpoint params =
           patch_call h userId (claimsToStore (provider p) (toISOString_now h) idTokenClaims)
       \<and> (\<forall>name \<in> fst ` set (claimsToStore (provider p) (toISOString_now h) idTokenClaims).
             startsWith name ''_'' \<longrightarrow>
               name \<in> {''_provider'', ''_last_updated''}
               \<or> (\<exists>v. (name, v) \<in> set idTokenClaims \<and> name \<notin> ignoreClaims
                        \<and> v \<noteq> JNull \<and> v \<noteq> JUndefined))"
proof
  from assms show "Patch endpoint params =
           patch_call h userId (claimsToStore (provider p) (toISOString_now h) idTokenClaims)"
    by (auto simp: captureIdpClaimsWorkflow_def store_snapshot_def Let_def
        list_properties_call_def create_property_call_def patch_call_def
        split: option.splits sum.splits if_splits)
  have sub: "set (filtered_claims idTokenClaims) \<subseteq> {c \<in> set idTokenClaims. keep c}"
    using filter_loop_subset[of idTokenClaims "[]"] by (simp add: filtered_claims_def)
  show "\<forall>name \<in> fst ` set (claimsToStore (provider p) (toISOString_now h) idTokenClaims).
             startsWith name ''_'' \<longrightarrow>
               name \<in> {''_provider'', ''_last_updated''}
               \<or> (\<exists>v. (name, v) \<in> set idTokenClaims \<and> name \<notin> ignoreClaims
                        \<and> v \<noteq> JNull \<and> v \<noteq> JUndefined)"
    unfolding keys_claimsToStore using sub by (fastforce simp: keep_def)
qed

theorem snapshot_underscore_keys_witness:
  "Patch ''users/kp_1/properties''
     [(''properties'',
       JStr (JSON_stringify example_host 0
         (JObj [(''idp_claims'',
                 JStr (JSON_stringify example_host 2
                   (JObj (claimsToStore (JStr ''google'') ''2024-01-01T00:00:00.000Z''
                            [(''sub'', JStr ''u1''),
                             (''_claim_names'', JObj [(''groups'', JStr ''src1'')])]))))])))]
     \<in> set (calls (captureIdpClaimsWorkflow example_host
            (example_event\<lparr>auth_provider := Some (example_idp\<lparr>claims :=
               Some [(''sub'', JStr ''u1''),
                     (''_claim_names'', JObj [(''groups'', JStr ''src1'')])]\<rparr>)\<rparr>)))
   \<and> ''_claim_names'' \<in> fst ` set (claimsToStore (JStr ''google'') ''2024-01-01T00:00:00.000Z''
                            [(''sub'', JStr ''u1''),
                             (''_claim_names'', JObj [(''groups'', JStr ''src1'' :: int js)])])
   \<and> startsWith ''_claim_names'' ''_''
   \<and> (\<exists>v. (''_claim_names'', v) \<in> set [(''sub'', JStr ''u1''),
                             (''_claim_names'', JObj [(''groups'', JStr ''src1'' :: int js)])]
            \<and> ''_claim_names'' \<notin> ignoreClaims \<and> v \<noteq> JNull \<and> v \<noteq> JUndefined)"
proof -
  let ?cs = "[(''sub'', JStr ''u1''), (''_claim_names'', JObj [(''groups'', JStr ''src1'' :: int js)])]"
  let ?p = "example_idp\<lparr>claims := Some ?cs\<rparr>"
  let ?ev = "example_event\<lparr>auth_provider := Some ?p\<rparr>"
  let ?params = "[(''properties'',
       JStr (JSON_stringify example_host 0
         (JObj [(''idp_claims'',
                 JStr (JSON_stringify example_host 2
                   (JObj (claimsToStore (JStr ''google'') ''2024-01-01T00:00:00.000Z'' ?cs))))])))]"
  have mem: "Patch ''users/kp_1/properties'' ?params \<in> set (calls (captureIdpClaimsWorkflow example_host ?ev))"
    by (simp add: captureIdpClaimsWorkflow_def store_snapshot_def example_host_def
        example_event_def example_idp_def propertyExists_def patch_call_def Let_def
        IDP_CLAIMS_PROPERTY_KEY_def)
  have ev: "auth_provider ?ev = Some ?p" "claims ?p = Some ?cs" "user_id ?ev = Some ''kp_1''"
    by (simp_all add: example_event_def)
  have pr: "provider ?p = JStr ''google''" "toISOString_now example_host = ''2024-01-01T00:00:00.000Z''"
    by (simp_all add: example_idp_def example_host_def)
  have key: "''_claim_names'' \<in> fst ` set (claimsToStore (JStr ''google'') ''2024-01-01T00:00:00.000Z'' ?cs)"
    by (simp add: keys_claimsToStore filtered_claims_def keep_def assign_def ignoreClaims_def)
  have pre: "startsWith ''_claim_names'' ''_''"
    by (simp add: startsWith_def)
  from snapshot_underscore_keys[OF ev mem, unfolded pr, THEN conjunct2, rule_format, OF key pre]
  have "\<exists>v. (''_claim_names'', v) \<in> set ?cs
            \<and> ''_claim_names'' \<notin> ignoreClaims \<and> v \<noteq> JNull \<and> v \<noteq> JUndefined"
    by simp
  with mem key pre show ?thesis by (intro conjI)
qed

section \<open>Projection workflow: the claims\<close>

text \<open>
  What the projection handler absorbs. Once the API client exists, the handler returns and
  both claim bags are what they were when the body of the \<^verbatim>\<open>try\<close> around the fetch
  throws, when the property \<^verbatim>\<open>idp_claims\<close> is missing (or null, or empty), and when
  \<^verbatim>\<open>JSON.parse\<close> throws on its value.
\<close>

lemma projection_absorbs_store_failures:
  assumes "createKindeAPI h = None"
    and "(\<exists>e. api_get h = Inl e)
         \<or> (\<exists>properties. api_get h = Inr properties \<and> \<not> truthy (stored_idp_claims properties))
         \<or> (\<exists>properties text e. api_get h = Inr properties
               \<and> stored_idp_claims properties = Some text \<and> JSON_parse h text = Inl e)"
  shows "token_outcome (handleTokensGeneration h event bags) = Returned
       \<and> tokens (handleTokensGeneration h event bags) = bags"
  using assms
  by (auto simp: handleTokensGeneration_def Let_def split: option.splits sum.splits)

text \<open>
  What it does not absorb: \<^verbatim>\<open>await createKindeAPI(event)\<close> stands before the
  \<^verbatim>\<open>try\<close>; a stored text that parses to \<^verbatim>\<open>null\<close> reaches
  \<^verbatim>\<open>Object.entries(null)\<close>; and the last \<^verbatim>\<open>console.log\<close> converts the stored
  \<^verbatim>\<open>_provider\<close> to a string.
\<close>

lemma projection_client_failure_propagates:
  assumes "userId_of event = Some userId" and "userId \<noteq> []" and "createKindeAPI h = Some e"
  shows "handleTokensGeneration h event bags =
           \<lparr>token_outcome = Threw e, token_calls = [CreateKindeAPI], tokens = bags\<rparr>"
  using assms by (simp add: handleTokensGeneration_def)

lemma projection_null_snapshot_throws:
  assumes "userId_of event = Some userId" and "userId \<noteq> []"
    and "createKindeAPI h = None" and "api_get h = Inr properties"
    and "stored_idp_claims properties = Some text" and "text \<noteq> []"
    and "JSON_parse h text = Inr JNull"
  shows "handleTokensGeneration h event bags =
           \<lparr>token_outcome = Threw (TypeError ''Cannot convert undefined or null to object''),
            token_calls = [CreateKindeAPI, user_properties_call userId], tokens = bags\<rparr>"
  using assms by (simp add: handleTokensGeneration_def Let_def)

text \<open>
  C4 fails on the code. Three token-generation events on which the handler throws, so
  that the workflow, whose failure policy is \<^verbatim>\<open>stop\<close>, fails the token: the API client
  cannot be created (the side channel is unreachable); the stored \<^verbatim>\<open>idp_claims\<close> text
  is \<^verbatim>\<open>null\<close>, which is JSON but no snapshot; the stored text is an object whose
  \<^verbatim>\<open>_provider\<close> is an object with a member \<^verbatim>\<open>toString\<close>. In the first two the bags
  are untouched; in the third the claim \<^verbatim>\<open>idp_a\<close> is written before the throw.
\<close>

theorem projection_throws_on_store_failures:
  \<open>handleTokensGeneration
     (example_host\<lparr>createKindeAPI := Some (Error ''Failed to get access token'')\<rparr>)
     example_token_event example_bags
     = \<lparr>token_outcome = Threw (Error ''Failed to get access token''),
        token_calls = [CreateKindeAPI], tokens = example_bags\<rparr>
   \<and> handleTokensGeneration
     (example_host\<lparr>api_get := Inr (Some [stored_property ''null''])\<rparr>)
     example_token_event example_bags
     = \<lparr>token_outcome = Threw (TypeError ''Cannot convert undefined or null to object''),
        token_calls = [CreateKindeAPI, user_properties_call ''kp_1''], tokens = example_bags\<rparr>
   \<and> token_outcome (handleTokensGeneration
     (example_host\<lparr>api_get := Inr (Some [stored_property
        ''{"a":1,"_provider":{"toString":1}}''])\<rparr>)
     example_token_event example_bags)
     = Threw (TypeError ''Cannot convert object to primitive value'')
   \<and> accessToken (tokens (handleTokensGeneration
     (example_host\<lparr>api_get := Inr (Some [stored_property
        ''{"a":1,"_provider":{"toString":1}}''])\<rparr>)
     example_token_event example_bags)) ''idp_a'' = Some (JNum 1)\<close>
  by (simp add: handleTokensGeneration_def example_host_def example_parse_def
      example_bags_def Let_def final_log_def claimsAdded_def startsWith_def)

text \<open>
  C7. When the stored \<^verbatim>\<open>idp_claims\<close> value is present (a non-empty text) and
  \<^verbatim>\<open>JSON.parse\<close> throws on it, the projection handler returns without raising and
  both claim bags are what they were.
\<close>

theorem projection_malformed_json:
  assumes "createKindeAPI h = None" and "api_get h = Inr properties"
    and "stored_idp_claims properties = Some text" and "text \<noteq> []"
    and "JSON_parse h text = Inl e"
  shows "token_outcome (handleTokensGeneration h event bags) = Returned
       \<and> tokens (handleTokensGeneration h event bags) = bags"
  using assms
  by (auto simp: handleTokensGeneration_def Let_def split: option.splits sum.splits)

theorem projection_malformed_json_witness:
  \<open>JSON_parse example_host ''{"a":'' = Inl (SyntaxError ''Unexpected token'')
   \<and> token_outcome (handleTokensGeneration
         (example_host\<lparr>api_get := Inr (Some [stored_property ''{"a":''])\<rparr>)
       example_token_event example_bags) = Returned
   \<and> tokens (handleTokensGeneration
         (example_host\<lparr>api_get := Inr (Some [stored_property ''{"a":''])\<rparr>)
       example_token_event example_bags) = example_bags\<close>
proof -
  let ?h = \<open>example_host\<lparr>api_get := Inr (Some [stored_property ''{"a":''])\<rparr>\<close>
  have p: \<open>JSON_parse ?h ''{"a":'' = Inl (SyntaxError ''Unexpected token'')\<close>
    by (simp add: example_parse_def)
  have p': \<open>JSON_parse example_host ''{"a":'' = Inl (SyntaxError ''Unexpected token'')\<close>
    by (simp add: example_parse_def example_host_def)
  have "token_outcome (handleTokensGeneration ?h example_token_event example_bags) = Returned
       \<and> tokens (handleTokensGeneration ?h example_token_event example_bags) = example_bags"
    by (rule projection_malformed_json[where properties = \<open>Some [stored_property ''{"a":'']\<close>, OF _ _ _ _ p])
       simp_all
  with p' show ?thesis by simp
qed

text \<open>
  C2. When the stored text parses to an object (a snapshot; its keys are distinct), the
  loop of the projection handler leaves the access-token bag and the ID-token bag so:
  every snapshot entry whose key does not begin with \<^verbatim>\<open>_\<close> is found under
  \<^verbatim>\<open>"idp_"\<close> followed by its key, with its value; for a key that begins with
  \<^verbatim>\<open>_\<close> the name \<^verbatim>\<open>"idp_"\<close> followed by the key is left as it was; and every
  claim name that is not \<^verbatim>\<open>"idp_"\<close> followed by a projected key is left as it was.
\<close>

theorem projection_adds_prefixed_claims:
  assumes "userId_of event = Some userId" and "userId \<noteq> []"
    and "createKindeAPI h = None" and "api_get h = Inr properties"
    and "stored_idp_claims properties = Some text" and "text \<noteq> []"
    and "JSON_parse h text = Inr (JObj snapshot)" and "distinct (map fst snapshot)"
  shows "(\<forall>(name, v) \<in> set snapshot. \<not> startsWith name ''_'' \<longrightarrow>
             accessToken (tokens (handleTokensGeneration h event bags)) (''idp_'' @ name) = Some v
           \<and> idToken (tokens (handleTokensGeneration h event bags)) (''idp_'' @ name) = Some v)
       \<and> (\<forall>(name, v) \<in> set snapshot. startsWith name ''_'' \<longrightarrow>
             accessToken (tokens (handleTokensGeneration h event bags)) (''idp_'' @ name)
               = accessToken bags (''idp_'' @ name)
           \<and> idToken (tokens (handleTokensGeneration h event bags)) (''idp_'' @ name)
               = idToken bags (''idp_'' @ name))
       \<and> (\<forall>claim. claim \<notin> (\<lambda>name. ''idp_'' @ name) ` {name \<in> fst ` set snapshot. \<not> startsWith name ''_''} \<longrightarrow>
             accessToken (tokens (handleTokensGeneration h event bags)) claim = accessToken bags claim
           \<and> idToken (tokens (handleTokensGeneration h event bags)) claim = idToken bags claim)"
proof -
  have run: "handleTokensGeneration h event bags =
           \<lparr>token_outcome = final_log (JObj snapshot) snapshot,
            token_calls = [CreateKindeAPI, user_properties_call userId],
            tokens = add_claims snapshot bags\<rparr>"
    using assms(1-7) by (simp add: projection_reaches_loop)
  have meta: "''idp_'' @ name \<notin> (\<lambda>name. ''idp_'' @ name) ` {name \<in> fst ` set snapshot. \<not> startsWith name ''_''}"
    if "startsWith name ''_''" for name
    using that by auto
  show ?thesis
    unfolding run
    using add_claims_lookup[OF assms(8), of _ _ bags] add_claims_other[of _ snapshot bags] meta
    by (simp add: split_def)
qed

theorem projection_adds_prefixed_claims_witness:
  \<open>accessToken (tokens (handleTokensGeneration
       (example_host\<lparr>api_get := Inr (Some [stored_property
          ''{"a":1,"b":"x","_provider":"google","_last_updated":"T"}''])\<rparr>)
       example_token_event example_bags)) ''idp_a'' = Some (JNum 1)
   \<and> idToken (tokens (handleTokensGeneration
       (example_host\<lparr>api_get := Inr (Some [stored_property
          ''{"a":1,"b":"x","_provider":"google","_last_updated":"T"}''])\<rparr>)
       example_token_event example_bags)) ''idp_b'' = Some (JStr ''x'')
   \<and> accessToken (tokens (handleTokensGeneration
       (example_host\<lparr>api_get := Inr (Some [stored_property
          ''{"a":1,"b":"x","_provider":"google","_last_updated":"T"}''])\<rparr>)
       example_token_event example_bags)) ''idp__provider'' = None
   \<and> idToken (tokens (handleTokensGeneration
       (example_host\<lparr>api_get := Inr (Some [stored_property
          ''{"a":1,"b":"x","_provider":"google","_last_updated":"T"}''])\<rparr>)
       example_token_event example_bags)) ''idp__last_updated'' = None\<close>
proof -
  let ?text = \<open>''{"a":1,"b":"x","_provider":"google","_last_updated":"T"}''\<close>
  let ?h = "example_host\<lparr>api_get := Inr (Some [stored_property ?text])\<rparr>"
  let ?snapshot = "[(''a'', JNum 1), (''b'', JStr ''x''), (''_provider'', JStr ''google''),
                    (''_last_updated'', JStr ''T'' :: int js)]"
  have p: "JSON_parse ?h ?text = Inr (JObj ?snapshot)"
    by (simp add: example_parse_def)
  have d: "distinct (map fst ?snapshot)" by simp
  have "userId_of example_token_event = Some ''kp_1''" "''kp_1'' \<noteq> []"
    "createKindeAPI ?h = None" "api_get ?h = Inr (Some [stored_property ?text])"
    "stored_idp_claims (Some [stored_property ?text]) = Some ?text" "?text \<noteq> []"
    by simp_all
  from projection_adds_prefixed_claims[OF this p d, of example_bags]
  show ?thesis
    by (simp add: startsWith_def example_bags_def)
qed

text \<open>
  C10. A stored text that parses to an array or to a string is not taken for malformed:
  the handler goes on to the loop over \<^verbatim>\<open>Object.entries\<close>, returns, and has put element
  (or character) \<open>i\<close> into both bags under \<^verbatim>\<open>"idp_"\<close> followed by the decimal index,
  so \<^verbatim>\<open>[1,2]\<close> yields \<^verbatim>\<open>idp_0\<close> and \<^verbatim>\<open>idp_1\<close>.
\<close>

theorem projection_non_object_json:
  assumes "userId_of event = Some userId" and "userId \<noteq> []"
    and "createKindeAPI h = None" and "api_get h = Inr properties"
    and "stored_idp_claims properties = Some text" and "text \<noteq> []"
  shows "(\<forall>vs. JSON_parse h text = Inr (JArr vs) \<longrightarrow>
            token_outcome (handleTokensGeneration h event bags) = Returned
          \<and> (\<forall>i < length vs.
                accessToken (tokens (handleTokensGeneration h event bags)) (''idp_'' @ String_nat i)
                  = Some (vs ! i)
              \<and> idToken (tokens (handleTokensGeneration h event bags)) (''idp_'' @ String_nat i)
                  = Some (vs ! i)))
       \<and> (\<forall>s. JSON_parse h text = Inr (JStr s) \<longrightarrow>
            token_outcome (handleTokensGeneration h event bags) = Returned
          \<and> (\<forall>i < length s.
                accessToken (tokens (handleTokensGeneration h event bags)) (''idp_'' @ String_nat i)
                  = Some (JStr [s ! i])
              \<and> idToken (tokens (handleTokensGeneration h event bags)) (''idp_'' @ String_nat i)
                  = Some (JStr [s ! i])))"
proof (intro conjI allI impI)
  fix vs assume p: "JSON_parse h text = Inr (JArr vs)"
  have run: "handleTokensGeneration h event bags =
           \<lparr>token_outcome = Returned,
            token_calls = [CreateKindeAPI, user_properties_call userId],
            tokens = add_claims (index_entries vs) bags\<rparr>"
    using assms p by (simp add: projection_reaches_loop final_log_no_provider)
  show "token_outcome (handleTokensGeneration h event bags) = Returned"
    by (simp add: run)
  fix i assume "i < length vs"
  from add_claims_index[OF this, of bags]
  show "accessToken (tokens (handleTokensGeneration h event bags)) (''idp_'' @ String_nat i)
                  = Some (vs ! i)"
    and "idToken (tokens (handleTokensGeneration h event bags)) (''idp_'' @ String_nat i)
                  = Some (vs ! i)"
    by (simp_all add: run)
next
  fix s assume p: "JSON_parse h text = Inr (JStr s)"
  have run: "handleTokensGeneration h event bags =
           \<lparr>token_outcome = Returned,
            token_calls = [CreateKindeAPI, user_properties_call userId],
            tokens = add_claims (index_entries (map (\<lambda>c. JStr [c]) s)) bags\<rparr>"
    using assms p by (simp add: projection_reaches_loop final_log_no_provider)
  show "token_outcome (handleTokensGeneration h event bags) = Returned"
    by (simp add: run)
  fix i assume i: "i < length s"
  then have "i < length (map (\<lambda>c. JStr [c] :: 'a js) s)" by simp
  from add_claims_index[OF this, of bags] i
  show "accessToken (tokens (handleTokensGeneration h event bags)) (''idp_'' @ String_nat i)
                  = Some (JStr [s ! i])"
    and "idToken (tokens (handleTokensGeneration h event bags)) (''idp_'' @ String_nat i)
                  = Some (JStr [s ! i])"
    by (simp_all add: run)
qed

theorem projection_non_object_json_witness:
  "JSON_parse example_host ''[1,2]'' = Inr (JArr [JNum 1, JNum 2])
   \<and> token_outcome (handleTokensGeneration
       (example_host\<lparr>api_get := Inr (Some [stored_property ''[1,2]''])\<rparr>)
       example_token_event example_bags) = Returned
   \<and> accessToken (tokens (handleTokensGeneration
       (example_host\<lparr>api_get := Inr (Some [stored_property ''[1,2]''])\<rparr>)
       example_token_event example_bags)) ''idp_0'' = Some (JNum 1)
   \<and> accessToken (tokens (handleTokensGeneration
       (example_host\<lparr>api_get := Inr (Some [stored_property ''[1,2]''])\<rparr>)
       example_token_event example_bags)) ''idp_1'' = Some (JNum 2)
   \<and> idToken (tokens (handleTokensGeneration
       (example_host\<lparr>api_get := Inr (Some [stored_property ''[1,2]''])\<rparr>)
       example_token_event example_bags)) ''idp_0'' = Some (JNum 1)
   \<and> idToken (tokens (handleTokensGeneration
       (example_host\<lparr>api_get := Inr (Some [stored_property ''[1,2]''])\<rparr>)
       example_token_event example_bags)) ''idp_1'' = Some (JNum 2)"
proof -
  let ?h = "example_host\<lparr>api_get := Inr (Some [stored_property ''[1,2]''])\<rparr>"
  have p: "JSON_parse ?h ''[1,2]'' = Inr (JArr [JNum 1, JNum 2])"
    by (simp add: example_parse_def)
  have p': "JSON_parse example_host ''[1,2]'' = Inr (JArr [JNum 1, JNum 2])"
    by (simp add: example_parse_def example_host_def)
  have s0: "String_nat 0 = ''0''" and s1: "String_nat (Suc 0) = ''1''"
    by code_simp+
  have "userId_of example_token_event = Some ''kp_1''" "''kp_1'' \<noteq> []"
    "createKindeAPI ?h = None" "api_get ?h = Inr (Some [stored_property ''[1,2]''])"
    "stored_idp_claims (Some [stored_property ''[1,2]'']) = Some ''[1,2]''" "''[1,2]'' \<noteq> []"
    by simp_all
  note t = projection_non_object_json[OF this, of example_bags, THEN conjunct1, rule_format, OF p]
  from t[THEN conjunct1] t[THEN conjunct2, rule_format, of 0] t[THEN conjunct2, rule_format, of "Suc 0"]
  show ?thesis
    using p' by (simp add: s0 s1)
qed

end
